theory Spec2Isabelle
  imports Complex_Main "HOL-Library.Log_Nat"
begin

section \<open>JavaScript values used by the quiz backend\<close>

subsection \<open>Numbers\<close>

text \<open>
  A JavaScript number is a double: a finite value, \<open>NaN\<close>, \<open>+Infinity\<close> or \<open>-Infinity\<close>.
  A finite double is kept as the rational it denotes, and every arithmetic result is
  rounded to the nearest double, a tie going to the even significand (\<open>to_double\<close>),
  with 53 bits of precision, the subnormal range below \<open>2^-1022\<close> and overflow to an
  infinity from \<open>2^1024\<close>. The negative zero is identified with zero (\<open>-0 === 0\<close> holds in
  JavaScript, and no divisor below is a negative zero).
\<close>

datatype jsnum = Fin rat | NaN | PInf | NInf

text \<open>\<open>2^e\<close> for an integer \<open>e\<close>.\<close>

definition pow2 :: "int \<Rightarrow> rat" where
  "pow2 e = (if 0 \<le> e then 2 ^ nat e else 1 / 2 ^ nat (- e))"

text \<open>The binary exponent of a rational \<open>x\<close> other than 0: the \<open>e\<close> with
  \<open>2^e \<le> |x| < 2^(e+1)\<close>, found from the bit lengths of numerator and denominator.\<close>

definition ilog2 :: "rat \<Rightarrow> int" where
  "ilog2 x =
     (let (p, q) = quotient_of \<bar>x\<bar>;
          d = bitlen p - bitlen q
      in if pow2 d \<le> \<bar>x\<bar> then d else d - 1)"

text \<open>The nearest integer, a tie going to the even one.\<close>

definition round_even :: "rat \<Rightarrow> int" where
  "round_even y =
     (let f = \<lfloor>y\<rfloor>; d = y - of_int f
      in if d < 1 / 2 then f else if 1 / 2 < d then f + 1 else if even f then f else f + 1)"

text \<open>The double nearest to a rational: the value is rounded to a multiple of
  \<open>2^(e-52)\<close>, where \<open>e\<close> is its binary exponent, and at least \<open>-1022\<close>.\<close>

definition to_double :: "rat \<Rightarrow> jsnum" where
  "to_double x =
     (if x = 0 then Fin 0
      else
        (let e = max (ilog2 x) (- 1022);
             q = pow2 (e - 52);
             r = of_int (round_even (x / q)) * q
         in if r = 0 then Fin 0
            else if 1024 \<le> ilog2 r then (if 0 < x then PInf else NInf)
            else Fin r))"

text \<open>\<open>a + b\<close> on numbers.\<close>

fun js_add :: "jsnum \<Rightarrow> jsnum \<Rightarrow> jsnum" where
  "js_add (Fin x) (Fin y) = to_double (x + y)"
| "js_add NaN _ = NaN"
| "js_add _ NaN = NaN"
| "js_add PInf NInf = NaN"
| "js_add NInf PInf = NaN"
| "js_add PInf _ = PInf"
| "js_add NInf _ = NInf"
| "js_add _ PInf = PInf"
| "js_add _ NInf = NInf"

text \<open>\<open>a * b\<close> on numbers.\<close>

fun js_mul :: "jsnum \<Rightarrow> jsnum \<Rightarrow> jsnum" where
  "js_mul (Fin x) (Fin y) = to_double (x * y)"
| "js_mul NaN _ = NaN"
| "js_mul _ NaN = NaN"
| "js_mul PInf (Fin y) = (if y = 0 then NaN else if 0 < y then PInf else NInf)"
| "js_mul NInf (Fin y) = (if y = 0 then NaN else if 0 < y then NInf else PInf)"
| "js_mul (Fin x) PInf = (if x = 0 then NaN else if 0 < x then PInf else NInf)"
| "js_mul (Fin x) NInf = (if x = 0 then NaN else if 0 < x then NInf else PInf)"
| "js_mul PInf PInf = PInf"
| "js_mul NInf NInf = PInf"
| "js_mul PInf NInf = NInf"
| "js_mul NInf PInf = NInf"

text \<open>
  \<open>a / b\<close> on numbers: a zero divisor gives \<open>NaN\<close> for a zero dividend and an infinity
  otherwise; nothing is raised.
\<close>

fun js_div :: "jsnum \<Rightarrow> jsnum \<Rightarrow> jsnum" where
  "js_div (Fin x) (Fin y) =
     (if y = 0 then (if x = 0 then NaN else if 0 < x then PInf else NInf)
      else to_double (x / y))"
| "js_div NaN _ = NaN"
| "js_div _ NaN = NaN"
| "js_div (Fin x) PInf = Fin 0"
| "js_div (Fin x) NInf = Fin 0"
| "js_div PInf (Fin y) = (if 0 \<le> y then PInf else NInf)"
| "js_div NInf (Fin y) = (if 0 \<le> y then NInf else PInf)"
| "js_div PInf PInf = NaN"
| "js_div PInf NInf = NaN"
| "js_div NInf PInf = NaN"
| "js_div NInf NInf = NaN"

text \<open>\<open>Math.round\<close>: the nearest integer, a tie going up; \<open>NaN\<close> and the infinities stay.
  The result is exact: a double that is not an integer lies below \<open>2^52\<close>.\<close>

fun Math_round :: "jsnum \<Rightarrow> jsnum" where
  "Math_round (Fin x) = Fin (of_int \<lfloor>x + 1 / 2\<rfloor>)"
| "Math_round NaN = NaN"
| "Math_round PInf = PInf"
| "Math_round NInf = NInf"

fun isNaN :: "jsnum \<Rightarrow> bool" where
  "isNaN NaN = True"
| "isNaN _ = False"

fun is_finite :: "jsnum \<Rightarrow> bool" where
  "is_finite (Fin _) = True"
| "is_finite _ = False"

text \<open>An integer score, mark or count as a number. Up to \<open>2^53\<close> in magnitude an integer
  is a double; the statements that divide a score assume that bound.\<close>

abbreviation num :: "int \<Rightarrow> jsnum" where
  "num i \<equiv> Fin (of_int i)"

subsection \<open>Strings\<close>

text \<open>
  Strings are lists of characters, read as code units of the Latin-1 range. The white
  space that \<open>String.prototype.trim\<close> and \<open>parseInt\<close> skip is, in that range, TAB, LF, VT,
  FF, CR, SPACE and NBSP.
\<close>

definition is_ws :: "char \<Rightarrow> bool" where
  "is_ws c = (of_char c \<in> {9, 10, 11, 12, 13, 32, 160 :: nat})"

text \<open>\<open>toLowerCase\<close>: A to Z and the capital letters of Latin-1 (except the times sign)
  move up by 32.\<close>

definition lower_char :: "char \<Rightarrow> char" where
  "lower_char c =
     (let n = of_char c :: nat
      in if (65 \<le> n \<and> n \<le> 90) \<or> (192 \<le> n \<and> n \<le> 222 \<and> n \<noteq> 215)
         then char_of (n + 32) else c)"

definition toLowerCase :: "string \<Rightarrow> string" where
  "toLowerCase s = map lower_char s"

definition js_trim :: "string \<Rightarrow> string" where
  "js_trim s = rev (dropWhile is_ws (rev (dropWhile is_ws s)))"

subsection \<open>Printing a number\<close>

definition digit_char :: "nat \<Rightarrow> char" where
  "digit_char d = char_of (48 + d)"

text \<open>The decimal numeral of an integer that is not negative.\<close>

function show_pos :: "int \<Rightarrow> string" where
  "show_pos n = (if n < 10 then [digit_char (nat n)]
                 else show_pos (n div 10) @ [digit_char (nat (n mod 10))])"
  by pat_completeness auto
termination
  by (relation "measure nat") auto

declare show_pos.simps [simp del]


text \<open>The number of decimal digits of a positive integer.\<close>

function ndigits :: "int \<Rightarrow> int" where
  "ndigits n = (if n < 10 then 1 else 1 + ndigits (n div 10))"
  by pat_completeness auto
termination
  by (relation "measure nat") auto

declare ndigits.simps [simp del]

definition pow10 :: "int \<Rightarrow> rat" where
  "pow10 e = (if 0 \<le> e then 10 ^ nat e else 1 / 10 ^ nat (- e))"

text \<open>For a positive \<open>x\<close>, the \<open>n\<close> with \<open>10^(n-1) \<le> x < 10^n\<close>.\<close>

definition digits10 :: "rat \<Rightarrow> int" where
  "digits10 x =
     (let (p, q) = quotient_of x;
          d = ndigits p - ndigits q
      in if pow10 d \<le> x then d + 1 else d)"

text \<open>
  \<open>Number::toString\<close> of ECMAScript prints a positive double \<open>x\<close> from integers \<open>n\<close>, \<open>k\<close>
  and \<open>s\<close> with \<open>k\<close> digits in \<open>s\<close>, such that \<open>s * 10^(n-k)\<close> reads back as \<open>x\<close> and \<open>k\<close> is
  as small as possible, the \<open>s\<close> nearest to \<open>x\<close> being taken (the even one at a tie).
  \<open>candidate\<close> is the choice of \<open>(s, n)\<close> for a given \<open>k\<close>, if there is one: only the two
  \<open>k\<close>-digit values around \<open>x\<close> can read back as \<open>x\<close>, the upper one carrying into the
  next power of ten when \<open>s\<close> has only nines. \<open>shortest\<close> tries \<open>k\<close> from 1; seventeen
  digits always suffice.
\<close>

definition candidate :: "rat \<Rightarrow> int \<Rightarrow> nat \<Rightarrow> (int \<times> int) option" where
  "candidate x n0 k =
     (let u = pow10 (n0 - int k);
          s1 = \<lfloor>x / u\<rfloor>;
          v1 = (to_double (of_int s1 * u) = Fin x);
          v2 = (to_double (of_int (s1 + 1) * u) = Fin x);
          c2 = (if s1 + 1 = 10 ^ k then (10 ^ (k - 1), n0 + 1) else (s1 + 1, n0));
          d1 = x - of_int s1 * u;
          d2 = of_int (s1 + 1) * u - x
      in if v1 \<and> v2 then
           (if d1 < d2 then Some (s1, n0) else if d2 < d1 then Some c2
            else if even s1 then Some (s1, n0) else Some c2)
         else if v1 then Some (s1, n0)
         else if v2 then Some c2
         else None)"

fun shortest :: "rat \<Rightarrow> int \<Rightarrow> nat \<Rightarrow> nat \<Rightarrow> int \<times> nat \<times> int" where
  "shortest x n0 0 k = (\<lfloor>x / pow10 (n0 - int k)\<rfloor>, k, n0)"
| "shortest x n0 (Suc fuel) k =
     (case candidate x n0 k of
        Some (s, n) \<Rightarrow> (s, k, n)
      | None \<Rightarrow> shortest x n0 fuel (Suc k))"

text \<open>The five layouts of \<open>Number::toString\<close>: digits and zeros, digits with a point,
  \<open>0.\<close> and zeros before the digits, and the two exponent forms.\<close>

definition pos_toString :: "rat \<Rightarrow> string" where
  "pos_toString x =
     (let (s, k, n) = shortest x (digits10 x) 16 1;
          ds = show_pos s
      in if int k \<le> n \<and> n \<le> 21 then ds @ replicate (nat (n - int k)) CHR ''0''
         else if 0 < n \<and> n \<le> 21 then take (nat n) ds @ ''.'' @ drop (nat n) ds
         else if - 6 < n \<and> n \<le> 0 then ''0.'' @ replicate (nat (- n)) CHR ''0'' @ ds
         else
           (let e = n - 1;
                es = (if e < 0 then ''-'' else ''+'') @ show_pos \<bar>e\<bar>
            in if k = 1 then ds @ ''e'' @ es
               else take 1 ds @ ''.'' @ drop 1 ds @ ''e'' @ es))"

text \<open>\<open>ToString\<close> of a number. A finite value is read as the double nearest to it.\<close>

definition Number_toString :: "jsnum \<Rightarrow> string" where
  "Number_toString v =
     (case v of
        NaN \<Rightarrow> ''NaN''
      | PInf \<Rightarrow> ''Infinity''
      | NInf \<Rightarrow> ''-Infinity''
      | Fin r \<Rightarrow>
          (case to_double r of
             Fin x \<Rightarrow> (if x = 0 then ''0''
                        else if x < 0 then CHR ''-'' # pos_toString (- x)
                        else pos_toString x)
           | NaN \<Rightarrow> ''NaN''
           | PInf \<Rightarrow> ''Infinity''
           | NInf \<Rightarrow> ''-Infinity''))"

subsection \<open>Values of mixed type\<close>

text \<open>
  What a JSON request body or a \<open>Mixed\<close> path can hold at the places the grading reads:
  a missing property (\<open>undefined\<close>), \<open>null\<close>, a boolean, a number or a string.
\<close>

datatype jsval = JUndefined | JNull | JBool bool | JNum jsnum | JStr string

text \<open>\<open>ToString\<close> (also \<open>x.toString()\<close> where \<open>x\<close> is neither null nor undefined).\<close>

fun js_toString :: "jsval \<Rightarrow> string" where
  "js_toString JUndefined = ''undefined''"
| "js_toString JNull = ''null''"
| "js_toString (JBool b) = (if b then ''true'' else ''false'')"
| "js_toString (JNum v) = Number_toString v"
| "js_toString (JStr s) = s"

text \<open>\<open>!x\<close>: the falsy values.\<close>

fun falsy :: "jsval \<Rightarrow> bool" where
  "falsy JUndefined = True"
| "falsy JNull = True"
| "falsy (JBool b) = (\<not> b)"
| "falsy (JNum v) = (v = Fin 0 \<or> v = NaN)"
| "falsy (JStr s) = (s = [])"

subsection \<open>parseInt\<close>

text \<open>The value of a character as a digit: 0 to 9, then the letters in either case.\<close>

definition digit_val :: "char \<Rightarrow> nat option" where
  "digit_val c =
     (let n = of_char c :: nat
      in if 48 \<le> n \<and> n \<le> 57 then Some (n - 48)
         else if 97 \<le> n \<and> n \<le> 122 then Some (n - 87)
         else if 65 \<le> n \<and> n \<le> 90 then Some (n - 55)
         else None)"

definition is_digit :: "nat \<Rightarrow> char \<Rightarrow> bool" where
  "is_digit R c = (case digit_val c of None \<Rightarrow> False | Some d \<Rightarrow> d < R)"

definition digits_value :: "nat \<Rightarrow> string \<Rightarrow> int" where
  "digits_value R s = foldl (\<lambda>acc c. acc * int R + int (the (digit_val c))) 0 s"

text \<open>
  \<open>parseInt(string, radix)\<close> of ECMAScript, for a radix that is absent (\<open>None\<close>) or in
  2..36: skip leading white space, read a sign, strip a \<open>0x\<close>/\<open>0X\<close> prefix when the
  radix is absent or 16, take the longest prefix of digits; no digit gives \<open>NaN\<close>.
  The result is the double nearest to the integer read.
\<close>

definition parseInt_str :: "string \<Rightarrow> nat option \<Rightarrow> jsnum" where
  "parseInt_str inputString radix =
     (let S = dropWhile is_ws inputString;
          neg = (S \<noteq> [] \<and> hd S = CHR ''-'');
          S1 = (if S \<noteq> [] \<and> (hd S = CHR ''+'' \<or> hd S = CHR ''-'') then tl S else S);
          stripPrefix = (radix = None \<or> radix = Some 16);
          hex = (stripPrefix \<and> (take 2 S1 = ''0x'' \<or> take 2 S1 = ''0X''));
          S2 = (if hex then drop 2 S1 else S1);
          R = (if hex then 16 else (case radix of None \<Rightarrow> 10 | Some r \<Rightarrow> r));
          Z = takeWhile (is_digit R) S2
      in if Z = [] then NaN
         else to_double (of_int (if neg then - digits_value R Z else digits_value R Z)))"

definition parseInt :: "jsval \<Rightarrow> nat option \<Rightarrow> jsnum" where
  "parseInt v radix = parseInt_str (js_toString v) radix"

text \<open>\<open>a === b\<close> on two numbers: \<open>NaN\<close> equals nothing, itself included.\<close>

fun num_strict_eq :: "jsnum \<Rightarrow> jsnum \<Rightarrow> bool" where
  "num_strict_eq NaN _ = False"
| "num_strict_eq _ NaN = False"
| "num_strict_eq a b = (a = b)"

section \<open>Quizzes and questions (models/Quiz.js)\<close>

text \<open>
  A question of a stored quiz, as the lean query of the controller returns it: \<open>q_id\<close> is
  \<open>_id.toString()\<close>, \<open>q_type\<close> the type tag (\<open>MCQ\<close>, \<open>Fill\<close>, or whatever was stored),
  \<open>correctAnswer\<close> a value of mixed type, \<open>marks\<close> a number that may be absent.
\<close>

record question =
  q_id :: string
  q_type :: string
  questionText :: string
  options :: "string list option"
  correctAnswer :: jsval
  marks :: "int option"

record quiz =
  quiz_id :: string
  title :: string
  subject :: string
  createdBy :: string
  questions :: "question list"

text \<open>\<open>question.marks || d\<close>: an absent or zero \<open>marks\<close> gives \<open>d\<close>.\<close>

definition marks_or :: "question \<Rightarrow> int \<Rightarrow> int" where
  "marks_or q d = (case marks q of None \<Rightarrow> d | Some m \<Rightarrow> if m = 0 then d else m)"

section \<open>Grading (controllers/quizController.js, submitQuizAttempt)\<close>

text \<open>An element of \<open>req.body.responses\<close>, an object; a property it lacks reads as
  \<open>undefined\<close>.\<close>

record response =
  questionId :: jsval
  selectedAnswer :: jsval

text \<open>An entry of \<open>processedResponses\<close>.\<close>

record graded =
  g_questionId :: jsval
  g_selectedAnswer :: jsval
  isCorrect :: bool
  questionType :: string
  g_correctAnswer :: jsval

text \<open>The \<open>switch (question.type)\<close> that sets \<open>isCorrect\<close> for a question and a submitted
  answer.\<close>

definition checkAnswer :: "question \<Rightarrow> jsval \<Rightarrow> bool" where
  "checkAnswer question userAnswer =
     (if q_type question = ''MCQ'' then
        num_strict_eq (parseInt (correctAnswer question) None) (parseInt userAnswer None)
      else if q_type question = ''Fill'' then
        (if falsy (correctAnswer question) \<or> userAnswer = JNull \<or> userAnswer = JUndefined
         then False
         else js_trim (toLowerCase (js_toString (correctAnswer question)))
              = js_trim (toLowerCase (js_toString userAnswer)))
      else False)"

text \<open>\<open>quiz.questions.find(q => q._id.toString() === response.questionId)\<close>: the strict
  equality holds only for a string \<open>questionId\<close>.\<close>

definition findQuestion :: "question list \<Rightarrow> response \<Rightarrow> question option" where
  "findQuestion qs r = find (\<lambda>q. JStr (q_id q) = questionId r) qs"

text \<open>The body of the \<open>responses.map\<close> callback: the entry it returns (\<open>None\<close> for the
  \<open>null\<close> of an unmatched response) and the running \<open>score\<close> it leaves.\<close>

definition gradeOne :: "question list \<Rightarrow> response \<Rightarrow> int \<Rightarrow> graded option \<times> int" where
  "gradeOne qs r score =
     (case findQuestion qs r of
        None \<Rightarrow> (None, score)
      | Some q \<Rightarrow>
          (let userAnswer = selectedAnswer r;
               ok = checkAnswer q userAnswer;
               score' = (if ok then score + marks_or q 1 else score)
           in (Some \<lparr>g_questionId = questionId r, g_selectedAnswer = userAnswer,
                      isCorrect = ok, questionType = q_type q,
                      g_correctAnswer = correctAnswer q\<rparr>, score')))"

fun mapResponses :: "question list \<Rightarrow> response list \<Rightarrow> int \<Rightarrow> graded option list \<times> int" where
  "mapResponses qs [] score = ([], score)"
| "mapResponses qs (r # rs) score =
     (let (p, score1) = gradeOne qs r score;
          (ps, score2) = mapResponses qs rs score1
      in (p # ps, score2))"

text \<open>\<open>.filter(Boolean)\<close> on the mapped list.\<close>

definition filterBoolean :: "'a option list \<Rightarrow> 'a list" where
  "filterBoolean xs = map the (filter (\<lambda>p. p \<noteq> None) xs)"

text \<open>\<open>processedResponses\<close> and the final \<open>score\<close>, from \<open>let score = 0\<close>.\<close>

definition processResponses :: "question list \<Rightarrow> response list \<Rightarrow> graded list \<times> int" where
  "processResponses qs rs =
     (let (ps, score) = mapResponses qs rs 0 in (filterBoolean ps, score))"

text \<open>\<open>quiz.questions.reduce((sum, q) => sum + (q.marks || 1), 0)\<close>.\<close>

definition totalMarks_of :: "question list \<Rightarrow> int" where
  "totalMarks_of qs = foldl (\<lambda>sum q. sum + marks_or q 1) 0 qs"

text \<open>\<open>Math.round((a / b) * 100)\<close>, the expression of the response, of the pre-save hook
  and of the results page.\<close>

definition round_pct :: "jsnum \<Rightarrow> jsnum \<Rightarrow> jsnum" where
  "round_pct a b = Math_round (js_mul (js_div a b) (num 100))"

section \<open>Object ids\<close>

text \<open>
  An \<open>_id\<close> or a reference is an ObjectId, twelve bytes; the model keeps it as its
  string, 24 hexadecimal digits in lower case (\<open>_id.toString()\<close>). Casting an id string
  that the driver accepts gives the ObjectId it denotes: 24 hexadecimal digits in
  either case denote the same bytes, and a string of 12 characters, where the driver
  accepts one, is taken as the bytes themselves.
\<close>

definition hex_char :: "nat \<Rightarrow> char" where
  "hex_char d = (if d < 10 then char_of (48 + d) else char_of (87 + d))"

definition castObjectId :: "string \<Rightarrow> string" where
  "castObjectId s =
     (if length s = 12
      then concat (map (\<lambda>c. [hex_char (of_char c div 16), hex_char (of_char c mod 16)]) s)
      else toLowerCase s)"

text \<open>The id strings that cast; \<open>findById\<close> with any other string rejects with a
  CastError.\<close>

definition castable :: "string \<Rightarrow> bool" where
  "castable s = (length s = 12 \<or> (length s = 24 \<and> list_all (is_digit 16) s))"

section \<open>Stored attempts (models/QuizAttempt.js)\<close>

text \<open>
  The schema declares \<open>user\<close>, \<open>quiz\<close>, \<open>score\<close>, \<open>totalQuestions\<close>, \<open>percentage\<close>,
  \<open>responses\<close> (each with \<open>questionId\<close>, \<open>selectedAnswer\<close>, \<open>isCorrect\<close>),
  \<open>completedAt\<close>, \<open>timeTaken\<close>, \<open>username\<close> and \<open>quizTitle\<close>, and sets no \<open>strict\<close>
  option, so a document built from other keys keeps only these. It declares no
  \<open>totalMarks\<close>: \<open>a_totalMarks\<close> is what \<open>attempt.totalMarks\<close> reads from a stored
  document, \<open>None\<close> for \<open>undefined\<close>. The denormalised \<open>username\<close> and \<open>quizTitle\<close> are
  left out; nothing below reads them.
\<close>

record stored_response =
  s_questionId :: jsval
  s_selectedAnswer :: jsval
  s_isCorrect :: bool

record attempt =
  a_id :: string
  a_user :: string
  a_quiz :: string
  a_score :: int
  a_totalQuestions :: nat
  a_totalMarks :: "int option"
  a_percentage :: jsnum
  a_responses :: "stored_response list"
  a_timeTaken :: nat
  a_completedAt :: nat

text \<open>The object literal \<open>attemptData\<close> of the controller.\<close>

record attemptData =
  d_quiz :: string
  d_user :: string
  d_score :: int
  d_totalMarks :: int
  d_totalQuestions :: nat
  d_responses :: "graded list"
  d_timeTaken :: nat
  d_completedAt :: nat

text \<open>The pre-save hook: the percentage it computes is \<open>score / totalQuestions\<close>.\<close>

definition preSave :: "attempt \<Rightarrow> attempt" where
  "preSave this =
     (if a_totalQuestions this > 0
      then this\<lparr>a_percentage :=
             round_pct (num (a_score this)) (num (int (a_totalQuestions this)))\<rparr>
      else this)"

text \<open>\<open>QuizAttempt.create(attemptData)\<close>: the document of the schema's paths, the two
  references cast to ObjectIds, with the default \<open>percentage\<close> 0, run through the
  pre-save hook; \<open>new_id\<close> is its fresh \<open>_id\<close>.\<close>

definition castAttempt :: "string \<Rightarrow> attemptData \<Rightarrow> attempt" where
  "castAttempt new_id d =
     \<lparr>a_id = new_id, a_user = castObjectId (d_user d), a_quiz = castObjectId (d_quiz d),
      a_score = d_score d,
      a_totalQuestions = d_totalQuestions d, a_totalMarks = None, a_percentage = num 0,
      a_responses = map (\<lambda>g. \<lparr>s_questionId = g_questionId g,
                                s_selectedAnswer = g_selectedAnswer g,
                                s_isCorrect = isCorrect g\<rparr>) (d_responses d),
      a_timeTaken = d_timeTaken d, a_completedAt = d_completedAt d\<rparr>"

definition createAttempt :: "string \<Rightarrow> attemptData \<Rightarrow> attempt" where
  "createAttempt new_id d = preSave (castAttempt new_id d)"

section \<open>The store and the submit endpoint\<close>

record store =
  quizzes :: "quiz list"
  attempts :: "attempt list"

datatype http_error = BadRequest | Unauthorized | NotFound | ServerError

text \<open>\<open>Quiz.findById(id)\<close> and \<open>QuizAttempt.findById(id)\<close> for an id string: the string is
  cast to an ObjectId and the document with that \<open>_id\<close> is looked up.\<close>

definition findQuiz :: "store \<Rightarrow> string \<Rightarrow> quiz option" where
  "findQuiz s qid = find (\<lambda>q. quiz_id q = castObjectId qid) (quizzes s)"

definition findAttempt :: "store \<Rightarrow> string \<Rightarrow> attempt option" where
  "findAttempt s aid = find (\<lambda>a. a_id a = castObjectId aid) (attempts s)"

text \<open>\<open>populate('quiz')\<close> on an attempt: the quiz whose \<open>_id\<close> is the stored reference, or
  null.\<close>

definition populateQuiz :: "store \<Rightarrow> attempt \<Rightarrow> quiz option" where
  "populateQuiz s a = find (\<lambda>q. quiz_id q = a_quiz a) (quizzes s)"

text \<open>
  The request: the route parameter, \<open>req.body.responses\<close> (\<open>None\<close> when it is missing or
  not an array), \<open>req.body.timeTaken\<close> and \<open>req.user?.id\<close>. The environment supplies what
  the code draws from outside: the driver's test of an id string (a malformed id makes
  \<open>findById\<close> reject with a cast error, which the \<open>catch\<close> turns into 500), a fresh
  ObjectId for an anonymous user, the fresh \<open>_id\<close> of the new document and the clock.
\<close>

record submit_req =
  r_quizId :: string
  r_responses :: "response list option"
  r_timeTaken :: "nat option"
  r_user :: "string option"

record env =
  isValid :: "string \<Rightarrow> bool"
  fresh_user :: string
  fresh_id :: string
  now :: nat

text \<open>What a successful submission answers with: the saved document spread into \<open>data\<close>,
  and the \<open>percentage\<close> key written after it.\<close>

record submit_data =
  saved :: attempt
  percentage :: jsnum

definition buildAttemptData :: "env \<Rightarrow> submit_req \<Rightarrow> quiz \<Rightarrow> response list \<Rightarrow> attemptData" where
  "buildAttemptData e req qz responses =
     (let (processedResponses, score) = processResponses (questions qz) responses
      in \<lparr>d_quiz = r_quizId req,
          d_user = (case r_user req of Some u \<Rightarrow> u | None \<Rightarrow> fresh_user e),
          d_score = score,
          d_totalMarks = totalMarks_of (questions qz),
          d_totalQuestions = length (questions qz),
          d_responses = processedResponses,
          d_timeTaken = (case r_timeTaken req of Some t \<Rightarrow> t | None \<Rightarrow> 0),
          d_completedAt = now e\<rparr>)"

definition submitQuizAttempt :: "env \<Rightarrow> store \<Rightarrow> submit_req \<Rightarrow> (http_error + submit_data) \<times> store" where
  "submitQuizAttempt e s req =
     (if r_quizId req = [] then (Inl BadRequest, s)
      else
       (case r_responses req of
          None \<Rightarrow> (Inl BadRequest, s)
        | Some responses \<Rightarrow>
          if \<not> isValid e (r_quizId req) then (Inl ServerError, s)
          else
            (case findQuiz s (r_quizId req) of
               None \<Rightarrow> (Inl NotFound, s)
             | Some qz \<Rightarrow>
                 (let attemptData = buildAttemptData e req qz responses;
                      quizAttempt = createAttempt (fresh_id e) attemptData
                  in (Inr \<lparr>saved = quizAttempt,
                            percentage = round_pct (num (d_score attemptData))
                                                   (num (d_totalMarks attemptData))\<rparr>,
                      s\<lparr>attempts := attempts s @ [quizAttempt]\<rparr>)))))"

section \<open>The pre-save hook and the validators of a quiz (models/Quiz.js)\<close>

text \<open>The callback of \<open>this.questions.map\<close> in \<open>QuizSchema.pre('save')\<close>: one branch for
  each of the type tags \<open>TrueFalse\<close>, \<open>Fill\<close> and \<open>MCQ\<close>; no branch assigns \<open>question.type\<close>.\<close>

definition preSaveQuestion :: "question \<Rightarrow> question" where
  "preSaveQuestion question =
     (if q_type question = ''TrueFalse'' then
        question\<lparr>options := Some [''True'', ''False''],
                 correctAnswer :=
                   (case correctAnswer question of
                      JBool b \<Rightarrow> (if b then JNum (num 0) else JNum (num 1))
                    | JStr s \<Rightarrow>
                        (let answer = toLowerCase s
                         in if answer = ''true'' then JNum (num 0)
                            else if answer = ''false'' then JNum (num 1)
                            else JStr s)
                    | v \<Rightarrow> v)\<rparr>
      else if q_type question = ''Fill'' then question\<lparr>options := None\<rparr>
      else if q_type question = ''MCQ'' then
        question\<lparr>correctAnswer :=
                   (case correctAnswer question of
                      JNum v \<Rightarrow> JNum v
                    | v \<Rightarrow> JNum (parseInt v (Some 10))),
                 options :=
                   (case options question of
                      None \<Rightarrow> Some [[], [], [], []]
                    | Some os \<Rightarrow>
                        if length os \<noteq> 4
                        then Some (take 4 (os @ replicate (4 - length os) []))
                        else Some os)\<rparr>
      else question)"

definition preSaveQuiz :: "quiz \<Rightarrow> quiz" where
  "preSaveQuiz this = this\<lparr>questions := map preSaveQuestion (questions this)\<rparr>"

text \<open>The schema's validators of a question: the \<open>enum\<close> of \<open>type\<close>, and the validator
  functions of \<open>options\<close> and \<open>correctAnswer\<close>, which branch on \<open>this.type === 'MCQ'\<close>.\<close>

definition validType :: "question \<Rightarrow> bool" where
  "validType q = (q_type q = ''MCQ'' \<or> q_type q = ''Fill'')"

definition validOptions :: "question \<Rightarrow> bool" where
  "validOptions q =
     (if q_type q = ''MCQ'' then (case options q of None \<Rightarrow> False | Some v \<Rightarrow> length v = 4)
      else (case options q of None \<Rightarrow> True | Some v \<Rightarrow> length v = 0))"

definition validCorrectAnswer :: "question \<Rightarrow> bool" where
  "validCorrectAnswer q =
     (if q_type q = ''MCQ''
      then (case correctAnswer q of
              JNum (Fin v) \<Rightarrow> v = of_int \<lfloor>v\<rfloor> \<and> 0 \<le> v \<and> v < 4
            | _ \<Rightarrow> False)
      else (case correctAnswer q of JStr v \<Rightarrow> length (js_trim v) > 0 | _ \<Rightarrow> False))"

text \<open>\<open>min: [1, ...]\<close> on \<open>marks\<close>; absent marks take the default 1.\<close>

definition validMarks :: "question \<Rightarrow> bool" where
  "validMarks q = (case marks q of None \<Rightarrow> True | Some m \<Rightarrow> 1 \<le> m)"

text \<open>All validators of a question: besides the above, \<open>type\<close>, \<open>questionText\<close> and
  \<open>correctAnswer\<close> are required (the validators above already fail on a missing
  \<open>correctAnswer\<close>, and on missing options of an \<open>MCQ\<close> question).\<close>

definition validQuestion :: "question \<Rightarrow> bool" where
  "validQuestion q =
     (validType q \<and> questionText q \<noteq> [] \<and> validOptions q \<and> validCorrectAnswer q
      \<and> validMarks q)"

section \<open>Creating a quiz (controllers/quizController.js, createQuiz)\<close>

text \<open>\<open>req.user\<close>, set by the \<open>protect\<close> middleware.\<close>

record req_user =
  u_id :: string
  u_role :: string

text \<open>The fields of \<open>req.body\<close> that the handler and the schema read; a missing \<open>title\<close> or
  \<open>subject\<close> is the empty string, a missing \<open>duration\<close> is 0, missing \<open>questions\<close> are
  the empty list. The \<open>q_id\<close> of a question of the body is not read.\<close>

record quiz_body =
  b_title :: string
  b_subject :: string
  b_duration :: int
  b_questions :: "question list"

text \<open>What the handler draws from outside: whether \<open>User.findById\<close> finds the user, and
  the fresh ids of the quiz and of its questions.\<close>

record create_env =
  user_found :: bool
  new_quiz_id :: string
  new_question_id :: "nat \<Rightarrow> string"

text \<open>The document that \<open>Quiz.create\<close> builds from the body: \<open>title\<close> and \<open>subject\<close> are
  trimmed (\<open>trim: true\<close>), every question gets an \<open>_id\<close> and the default of \<open>marks\<close>.\<close>

definition newQuiz :: "create_env \<Rightarrow> string \<Rightarrow> quiz_body \<Rightarrow> quiz" where
  "newQuiz e uid body =
     \<lparr>quiz_id = new_quiz_id e, title = js_trim (b_title body),
      subject = js_trim (b_subject body), createdBy = castObjectId uid,
      questions =
        map (\<lambda>(i, q). q\<lparr>q_id := new_question_id e i,
                           marks := (case marks q of None \<Rightarrow> Some 1 | Some m \<Rightarrow> Some m)\<rparr>)
            (enumerate 0 (b_questions body))\<rparr>"

text \<open>The validation of the document: \<open>title\<close> and \<open>subject\<close> required, \<open>duration\<close> at
  least 1, every question valid.\<close>

definition validQuiz :: "quiz_body \<Rightarrow> quiz \<Rightarrow> bool" where
  "validQuiz body qz =
     (title qz \<noteq> [] \<and> subject qz \<noteq> [] \<and> 1 \<le> b_duration body
      \<and> list_all validQuestion (questions qz))"

text \<open>
  The handler. \<open>Quiz.create\<close> saves the document, and a save validates the document
  before it runs the pre-save hooks of the schema: a document that fails a validator
  is rejected with a ValidationError, which the \<open>catch\<close> answers with 400, and the hook
  above does not run on it.
\<close>

definition createQuiz ::
  "create_env \<Rightarrow> store \<Rightarrow> req_user option \<Rightarrow> quiz_body \<Rightarrow> (http_error + quiz) \<times> store" where
  "createQuiz e s user body =
     (case user of
        None \<Rightarrow> (Inl Unauthorized, s)
      | Some u \<Rightarrow>
          if u_id u = [] then (Inl Unauthorized, s)
          else if \<not> user_found e then (Inl NotFound, s)
          else if b_title body = [] \<or> b_subject body = [] \<or> b_duration body = 0
                  \<or> b_questions body = []
          then (Inl BadRequest, s)
          else
            (let doc = newQuiz e (u_id u) body
             in if \<not> validQuiz body doc then (Inl BadRequest, s)
                else
                  (let qz = preSaveQuiz doc
                   in (Inr qz, s\<lparr>quizzes := quizzes s @ [qz]\<rparr>))))"

section \<open>Deleting a quiz\<close>

text \<open>
  \<open>QuizAttempt.deleteMany({path: value})\<close>. The filter names a path by a string. For a
  path the attempt schema declares (\<open>quiz\<close>, \<open>user\<close>, \<open>_id\<close>) a document matches when it
  holds that value. A path the schema does not declare is handled by Mongoose's
  \<open>strictQuery\<close> setting, which the repository does not set and whose default differs
  between major versions: when on, the condition is dropped and the emptied filter
  matches every document; when off, the condition reaches the database, where no
  stored attempt has such a field.
\<close>

definition attemptPath :: "string \<Rightarrow> attempt \<Rightarrow> string option" where
  "attemptPath p a =
     (if p = ''quiz'' then Some (a_quiz a)
      else if p = ''user'' then Some (a_user a)
      else if p = ''_id'' then Some (a_id a)
      else None)"

definition matchesFilter :: "bool \<Rightarrow> string \<times> string \<Rightarrow> attempt \<Rightarrow> bool" where
  "matchesFilter strictQ f a =
     (case attemptPath (fst f) a of Some v \<Rightarrow> v = snd f | None \<Rightarrow> strictQ)"

definition deleteMany :: "bool \<Rightarrow> string \<times> string \<Rightarrow> attempt list \<Rightarrow> attempt list" where
  "deleteMany strictQ f as = filter (\<lambda>a. \<not> matchesFilter strictQ f a) as"

text \<open>
  What the database layer does outside the code's control: \<open>strictQuery\<close> as above, and
  whether the \<open>deleteMany\<close> on the attempts rejects (\<open>attempts_fail\<close>). Removing a document by
  its \<open>_id\<close> removes the one document with that id.
\<close>

record db =
  strictQuery :: bool
  attempts_fail :: bool

definition removeQuiz :: "string \<Rightarrow> store \<Rightarrow> store" where
  "removeQuiz qid s = s\<lparr>quizzes := filter (\<lambda>q. quiz_id q \<noteq> qid) (quizzes s)\<rparr>"

text \<open>\<open>exports.deleteQuiz\<close> of controllers/quizController.js: the filter is
  \<open>{ quizId: quiz._id }\<close>. An id that does not cast makes \<open>findById\<close> reject, which the
  \<open>catch\<close> answers with 500.\<close>

definition deleteQuiz :: "db \<Rightarrow> store \<Rightarrow> req_user \<Rightarrow> string \<Rightarrow> (http_error + unit) \<times> store" where
  "deleteQuiz d s user qid =
     (if \<not> castable qid then (Inl ServerError, s) else
      case findQuiz s qid of
        None \<Rightarrow> (Inl NotFound, s)
      | Some qz \<Rightarrow>
          if createdBy qz \<noteq> u_id user \<and> u_role user \<noteq> ''admin'' then (Inl Unauthorized, s)
          else if attempts_fail d then (Inl ServerError, s)
          else
            (let s1 = s\<lparr>attempts := deleteMany (strictQuery d) (''quizId'', quiz_id qz) (attempts s)\<rparr>
             in (Inr (), removeQuiz (quiz_id qz) s1)))"

text \<open>\<open>exports.deleteQuiz\<close> of controllers/adminController.js: the filter is
  \<open>{ quiz: quiz._id }\<close>; the route admits administrators only, and an error goes to the
  error handler (\<open>next(error)\<close>), here 500.\<close>

definition admin_deleteQuiz :: "db \<Rightarrow> store \<Rightarrow> string \<Rightarrow> (http_error + unit) \<times> store" where
  "admin_deleteQuiz d s qid =
     (if \<not> castable qid then (Inl ServerError, s) else
      case findQuiz s qid of
        None \<Rightarrow> (Inl NotFound, s)
      | Some qz \<Rightarrow>
          if attempts_fail d then (Inl ServerError, s)
          else
            (let s1 = s\<lparr>attempts := deleteMany (strictQuery d) (''quiz'', quiz_id qz) (attempts s)\<rparr>
             in (Inr (), removeQuiz (quiz_id qz) s1)))"

section \<open>The results page (controllers/quizController.js, getQuizAttemptById)\<close>

text \<open>\<open>attempt.quiz.questions.reduce((sum, question) => sum + (question.marks || 0), 0)\<close>.\<close>

definition totalPossibleScore_of :: "question list \<Rightarrow> int" where
  "totalPossibleScore_of qs = foldl (\<lambda>sum question. sum + marks_or question 0) 0 qs"

text \<open>\<open>calculatedPercentage\<close>: 0 unless the total is positive, and 0 again for \<open>NaN\<close>.\<close>

definition calculatedPercentage :: "int \<Rightarrow> int \<Rightarrow> jsnum" where
  "calculatedPercentage score totalPossibleScore =
     (let p = (if totalPossibleScore > 0
               then round_pct (num score) (num totalPossibleScore) else num 0)
      in if isNaN p then num 0 else p)"

record enhanced_response =
  e_questionId :: jsval
  e_selectedAnswer :: jsval
  e_isCorrect :: bool
  e_questionText :: string
  e_questionType :: "string option"
  e_options :: "string list"
  e_correctAnswer :: jsval
  e_marks :: int

definition enhanceResponse :: "question list \<Rightarrow> stored_response \<Rightarrow> enhanced_response" where
  "enhanceResponse qs r =
     (let question = find (\<lambda>q. q_id q = js_toString (s_questionId r)) qs
      in \<lparr>e_questionId = s_questionId r, e_selectedAnswer = s_selectedAnswer r,
          e_isCorrect = s_isCorrect r,
          e_questionText =
            (case question of None \<Rightarrow> ''Question not found''
             | Some q \<Rightarrow> if questionText q = [] then ''Question not found'' else questionText q),
          e_questionType = map_option q_type question,
          e_options = (case question of None \<Rightarrow> []
             | Some q \<Rightarrow> (case options q of None \<Rightarrow> [] | Some os \<Rightarrow> os)),
          e_correctAnswer = (case question of None \<Rightarrow> JUndefined | Some q \<Rightarrow> correctAnswer q),
          e_marks = (case question of None \<Rightarrow> 1 | Some q \<Rightarrow> marks_or q 1)\<rparr>)"

record results_data =
  rd_id :: string
  rd_quizId :: string
  rd_quizTitle :: string
  rd_subject :: string
  rd_score :: int
  rd_totalMarks :: "int option"
  rd_totalPossibleScore :: int
  rd_percentage :: jsnum
  rd_timeTaken :: nat
  rd_completedAt :: nat
  rd_responses :: "enhanced_response list"

text \<open>
  \<open>findByIdAndUpdate(attempt._id, { $set: { percentage, totalMarks } })\<close>: the document
  with that \<open>_id\<close> gets the percentage; \<open>totalMarks\<close> is not a path of the schema, so the
  update does not write it. When the update rejects (\<open>update_fails\<close>) the \<open>catch\<close> around it
  only logs, and the store stays as it was.
\<close>

definition updatePercentage :: "string \<Rightarrow> jsnum \<Rightarrow> store \<Rightarrow> store" where
  "updatePercentage aid p s =
     s\<lparr>attempts := map (\<lambda>a. if a_id a = aid then a\<lparr>a_percentage := p\<rparr> else a) (attempts s)\<rparr>"

text \<open>The handler: 400 for an id that \<open>ObjectId.isValid\<close> rejects, 404 for no attempt, and
  500 from the \<open>catch\<close> when the populated \<open>attempt.quiz\<close> is null (the quiz is gone) and
  \<open>attempt.quiz.questions\<close> throws.\<close>

definition getQuizAttemptById ::
  "(string \<Rightarrow> bool) \<Rightarrow> bool \<Rightarrow> store \<Rightarrow> string \<Rightarrow> (http_error + results_data) \<times> store" where
  "getQuizAttemptById isValidId update_fails s attemptId =
     (if \<not> isValidId attemptId then (Inl BadRequest, s)
      else
       (case findAttempt s attemptId of
          None \<Rightarrow> (Inl NotFound, s)
        | Some attempt \<Rightarrow>
          (case populateQuiz s attempt of
             None \<Rightarrow> (Inl ServerError, s)
           | Some qz \<Rightarrow>
               (let totalPossibleScore = totalPossibleScore_of (questions qz);
                    p = calculatedPercentage (a_score attempt) totalPossibleScore;
                    s' = (if update_fails then s else updatePercentage (a_id attempt) p s)
                in (Inr \<lparr>rd_id = a_id attempt, rd_quizId = quiz_id qz,
                          rd_quizTitle = title qz, rd_subject = subject qz,
                          rd_score = a_score attempt, rd_totalMarks = a_totalMarks attempt,
                          rd_totalPossibleScore = totalPossibleScore, rd_percentage = p,
                          rd_timeTaken = a_timeTaken attempt,
                          rd_completedAt = a_completedAt attempt,
                          rd_responses = map (enhanceResponse (questions qz)) (a_responses attempt)\<rparr>,
                    s')))))"

section \<open>Analytics (controllers/userController.js, getUserAnalytics)\<close>

text \<open>
  The query of the handler is
  \<open>QuizAttempt.find({ userId: req.user.id }).populate({ path: 'quizId', ... }).lean()\<close>.
  The attempt schema declares \<open>user\<close> and \<open>quiz\<close>, not \<open>userId\<close> and \<open>quizId\<close>. The filter is
  matched as for \<open>deleteMany\<close> above: with \<open>strictQuery\<close> off it matches no stored attempt,
  with \<open>strictQuery\<close> on the condition is dropped and every attempt is returned. No
  stored attempt has a \<open>quizId\<close> for \<open>populate\<close> to fill, so in a returned lean document
  \<open>attempt.quizId\<close> is undefined (\<open>None\<close>); a Mongoose that instead rejects the \<open>populate\<close>
  of an undeclared path does so when documents are returned, and the handler's \<open>catch\<close>
  answers 500 then as well.
\<close>

record quiz_ref =
  ref_id :: string
  ref_title :: string
  ref_subject :: string

record found_attempt =
  f_quizId :: "quiz_ref option"
  f_score :: int
  f_totalMarks :: "int option"
  f_completedAt :: nat

definition analyticsQuery :: "db \<Rightarrow> store \<Rightarrow> string \<Rightarrow> found_attempt list" where
  "analyticsQuery d s uid =
     map (\<lambda>a. \<lparr>f_quizId = None, f_score = a_score a, f_totalMarks = a_totalMarks a,
                f_completedAt = a_completedAt a\<rparr>)
         (filter (matchesFilter (strictQuery d) (''userId'', uid)) (attempts s))"

text \<open>\<open>attempt.percentage = (attempt.score / attempt.totalMarks) * 100\<close>.\<close>

definition attemptPercentage :: "found_attempt \<Rightarrow> jsnum" where
  "attemptPercentage a =
     js_mul (js_div (num (f_score a)) (case f_totalMarks a of None \<Rightarrow> NaN | Some t \<Rightarrow> num t))
            (num 100)"

record subject_entry =
  sp_attempts :: nat
  sp_totalScore :: jsnum

text \<open>The names that every plain object inherits. For such a name \<open>subjectPerformance[subject]\<close>
  is the inherited value, which is truthy, so no entry is made for it.\<close>

definition inherited_names :: "string list" where
  "inherited_names =
     [''constructor'', ''hasOwnProperty'', ''isPrototypeOf'', ''propertyIsEnumerable'',
      ''toLocaleString'', ''toString'', ''valueOf'', ''__proto__'', ''__defineGetter__'',
      ''__defineSetter__'', ''__lookupGetter__'', ''__lookupSetter__'']"

text \<open>The \<open>forEach\<close> that fills \<open>subjectPerformance\<close>, an object keyed by subject. Reading
  \<open>attempt.quizId.subject\<close> from a null or undefined \<open>quizId\<close> throws a TypeError: the result
  is \<open>None\<close>.\<close>

fun groupSubjects ::
  "found_attempt list \<Rightarrow> (string \<rightharpoonup> subject_entry) \<Rightarrow> (string \<rightharpoonup> subject_entry) option" where
  "groupSubjects [] acc = Some acc"
| "groupSubjects (attempt # rest) acc =
     (case f_quizId attempt of
        None \<Rightarrow> None
      | Some qz \<Rightarrow>
          (let subject = ref_subject qz
           in if subject \<in> set inherited_names then groupSubjects rest acc
              else
                (let cur = (case acc subject of
                              None \<Rightarrow> \<lparr>sp_attempts = 0, sp_totalScore = num 0\<rparr>
                            | Some e \<Rightarrow> e);
                     new = \<lparr>sp_attempts = sp_attempts cur + 1,
                            sp_totalScore =
                              js_add (sp_totalScore cur) (attemptPercentage attempt)\<rparr>
                 in groupSubjects rest (acc(subject \<mapsto> new)))))"

record activity =
  act_quizId :: string
  act_title :: string
  act_subject :: string
  act_score :: int
  act_totalMarks :: "int option"
  act_percentage :: jsnum
  act_completedAt :: nat

text \<open>The callback of \<open>recentActivity\<close>; it reads \<open>attempt.quizId._id\<close> and throws likewise.\<close>

fun recentActivity :: "found_attempt list \<Rightarrow> activity list option" where
  "recentActivity [] = Some []"
| "recentActivity (attempt # rest) =
     (case f_quizId attempt of
        None \<Rightarrow> None
      | Some qz \<Rightarrow>
          (case recentActivity rest of
             None \<Rightarrow> None
           | Some acts \<Rightarrow>
               Some (\<lparr>act_quizId = ref_id qz, act_title = ref_title qz,
                       act_subject = ref_subject qz, act_score = f_score attempt,
                       act_totalMarks = f_totalMarks attempt,
                       act_percentage = attemptPercentage attempt,
                       act_completedAt = f_completedAt attempt\<rparr> # acts)))"

text \<open>The summary. The averages are the numbers that \<open>toFixed(2)\<close> then prints; a subject
  maps to its entry and its average.\<close>

record analytics =
  totalAttempts :: nat
  averageScore :: jsnum
  subjectPerformance :: "string \<rightharpoonup> subject_entry \<times> jsnum"
  recent :: "activity list"

text \<open>The body of the handler after the query; a thrown TypeError is answered with 500.\<close>

definition summarise :: "found_attempt list \<Rightarrow> http_error + analytics" where
  "summarise quizAttempts =
     (let n = length quizAttempts;
          totalScore = foldl (\<lambda>acc attempt. js_add acc (attemptPercentage attempt)) (num 0)
                             quizAttempts;
          avg = (if n > 0 then js_div totalScore (num (int n)) else num 0)
      in case groupSubjects quizAttempts Map.empty of
           None \<Rightarrow> Inl ServerError
         | Some groups \<Rightarrow>
             (case recentActivity (take 5 quizAttempts) of
                None \<Rightarrow> Inl ServerError
              | Some acts \<Rightarrow>
                  Inr \<lparr>totalAttempts = n, averageScore = avg,
                       subjectPerformance =
                         (\<lambda>subject.
                            map_option
                              (\<lambda>e. (e, js_div (sp_totalScore e) (num (int (sp_attempts e)))))
                              (groups subject)),
                       recent = acts\<rparr>))"

definition getUserAnalytics :: "db \<Rightarrow> store \<Rightarrow> string \<Rightarrow> http_error + analytics" where
  "getUserAnalytics d s uid = summarise (analyticsQuery d s uid)"

section \<open>Predicates used in the statements\<close>

text \<open>A response is matched when its \<open>questionId\<close> finds a question of the quiz.\<close>

definition matched :: "question list \<Rightarrow> response \<Rightarrow> bool" where
  "matched qs r = (findQuestion qs r \<noteq> None)"

text \<open>A string of white space only.\<close>

definition all_ws :: "string \<Rightarrow> bool" where
  "all_ws s = list_all is_ws s"

text \<open>Two strings that differ in letter case only: position by position the characters
  are equal or one is the lower-case form of the other. (The relation is between single
  characters; a letter such as the sharp s, whose capital form is two letters, is related
  to itself only.)\<close>

definition case_variant :: "string \<Rightarrow> string \<Rightarrow> bool" where
  "case_variant u v = list_all2 (\<lambda>a b. a = b \<or> lower_char a = b \<or> a = lower_char b) u v"



text \<open>The percentage of the results page in the words of the specification:
  \<open>round(score / totalPossibleScore * 100)\<close>, and 0 when the divisor is 0 or the result is
  not a finite number. The expression is evaluated in the arithmetic of the program,
  on doubles.\<close>

definition spec_percentage :: "int \<Rightarrow> int \<Rightarrow> jsnum" where
  "spec_percentage score divisor =
     (if divisor = 0 then num 0
      else (let p = round_pct (num score) (num divisor) in if is_finite p then p else num 0))"

text \<open>What a run of the results page reports of the two derived values: the error, or
  the pair of \<open>percentage\<close> and \<open>totalPossibleScore\<close>.\<close>

definition reported :: "http_error + results_data \<Rightarrow> http_error + jsnum \<times> int" where
  "reported r = map_sum id (\<lambda>d. (rd_percentage d, rd_totalPossibleScore d)) r"

section \<open>Sample data\<close>

text \<open>An id string in the 24-digit hexadecimal form.\<close>

definition hexId :: "string \<Rightarrow> bool" where
  "hexId s = (length s = 24 \<and> list_all (is_digit 16) s)"

text \<open>The quiz of the scenarios: a multiple-choice question worth 1 mark whose answer is
  index 2, and a fill-in question worth 2 marks whose answer is \<open>Paris\<close>.\<close>

definition mcq1 :: question where
  "mcq1 = \<lparr>q_id = ''64a000000000000000000011'', q_type = ''MCQ'', questionText = ''Pick C'',
           options = Some [''A'', ''B'', ''C'', ''D''], correctAnswer = JNum (num 2), marks = Some 1\<rparr>"

definition fill1 :: question where
  "fill1 = \<lparr>q_id = ''64a000000000000000000012'', q_type = ''Fill'',
            questionText = ''Capital of France'', options = None,
            correctAnswer = JStr ''Paris'', marks = Some 2\<rparr>"

definition quiz1 :: quiz where
  "quiz1 = \<lparr>quiz_id = ''64a000000000000000000001'', title = ''Sample'', subject = ''General'',
            createdBy = ''64a0000000000000000000a1'', questions = [mcq1, fill1]\<rparr>"

text \<open>A quiz whose question list is empty.\<close>

definition quiz0 :: quiz where
  "quiz0 = \<lparr>quiz_id = ''64a000000000000000000002'', title = ''Empty'', subject = ''General'',
            createdBy = ''64a0000000000000000000a1'', questions = []\<rparr>"

definition store1 :: store where
  "store1 = \<lparr>quizzes = [quiz1, quiz0], attempts = []\<rparr>"

definition env1 :: env where
  "env1 = \<lparr>isValid = hexId, fresh_user = ''64a0000000000000000000ff'',
           fresh_id = ''64a0000000000000000000b1'', now = 0\<rparr>"

definition resp_mcq :: response where
  "resp_mcq = \<lparr>questionId = JStr (q_id mcq1), selectedAnswer = JNum (num 2)\<rparr>"

definition resp_fill :: response where
  "resp_fill = \<lparr>questionId = JStr (q_id fill1), selectedAnswer = JStr '' paris ''\<rparr>"

definition resp_stale :: response where
  "resp_stale = \<lparr>questionId = JStr ''64a000000000000000000099'', selectedAnswer = JNum (num 2)\<rparr>"

definition req_empty :: submit_req where
  "req_empty = \<lparr>r_quizId = quiz_id quiz0, r_responses = Some [], r_timeTaken = Some 5,
                r_user = Some ''64a0000000000000000000a2''\<rparr>"

definition req_full :: submit_req where
  "req_full = \<lparr>r_quizId = quiz_id quiz1, r_responses = Some [resp_mcq, resp_fill],
               r_timeTaken = Some 5, r_user = Some ''64a0000000000000000000a2''\<rparr>"

definition req_dup :: submit_req where
  "req_dup = \<lparr>r_quizId = quiz_id quiz1, r_responses = Some [resp_fill, resp_fill],
              r_timeTaken = Some 5, r_user = Some ''64a0000000000000000000a2''\<rparr>"

definition req_stale :: submit_req where
  "req_stale = \<lparr>r_quizId = quiz_id quiz1, r_responses = Some [resp_stale, resp_mcq, resp_stale],
                r_timeTaken = Some 5, r_user = Some ''64a0000000000000000000a2''\<rparr>"

text \<open>Two stored attempts: a full-score attempt at the sample quiz, as the submit endpoint
  stores it, and an attempt at the empty quiz.\<close>

definition att1 :: attempt where
  "att1 = \<lparr>a_id = ''64a0000000000000000000b1'', a_user = ''64a0000000000000000000a2'',
           a_quiz = quiz_id quiz1, a_score = 3, a_totalQuestions = 2, a_totalMarks = None,
           a_percentage = num 150,
           a_responses = [\<lparr>s_questionId = JStr (q_id mcq1), s_selectedAnswer = JNum (num 2),
                            s_isCorrect = True\<rparr>,
                          \<lparr>s_questionId = JStr (q_id fill1), s_selectedAnswer = JStr '' paris '',
                            s_isCorrect = True\<rparr>],
           a_timeTaken = 5, a_completedAt = 0\<rparr>"

definition att0 :: attempt where
  "att0 = \<lparr>a_id = ''64a0000000000000000000b2'', a_user = ''64a0000000000000000000a2'',
           a_quiz = quiz_id quiz0, a_score = 0, a_totalQuestions = 0, a_totalMarks = None,
           a_percentage = num 0, a_responses = [], a_timeTaken = 7, a_completedAt = 1\<rparr>"

text \<open>The sample quiz after its owner added a question worth 5 marks, and a store that
  holds the edited quiz with the earlier attempt.\<close>

definition mcq5 :: question where
  "mcq5 = \<lparr>q_id = ''64a000000000000000000013'', q_type = ''MCQ'', questionText = ''Pick A'',
           options = Some [''A'', ''B'', ''C'', ''D''], correctAnswer = JNum (num 0), marks = Some 5\<rparr>"

definition quiz1_edited :: quiz where
  "quiz1_edited = quiz1\<lparr>questions := [mcq1, fill1, mcq5]\<rparr>"

definition store2 :: store where
  "store2 = \<lparr>quizzes = [quiz1_edited, quiz0], attempts = [att1, att0]\<rparr>"

text \<open>A quiz whose one question is worth 40 marks, and a stored attempt at it with the
  score 23.\<close>

definition mcq40 :: question where
  "mcq40 = \<lparr>q_id = ''64a000000000000000000015'', q_type = ''MCQ'', questionText = ''Pick B'',
            options = Some [''A'', ''B'', ''C'', ''D''], correctAnswer = JNum (num 1),
            marks = Some 40\<rparr>"

definition quiz40 :: quiz where
  "quiz40 = \<lparr>quiz_id = ''64a000000000000000000004'', title = ''Long'', subject = ''General'',
             createdBy = ''64a0000000000000000000a1'', questions = [mcq40]\<rparr>"

definition att23 :: attempt where
  "att23 = \<lparr>a_id = ''64a0000000000000000000b3'', a_user = ''64a0000000000000000000a2'',
            a_quiz = quiz_id quiz40, a_score = 23, a_totalQuestions = 1, a_totalMarks = None,
            a_percentage = num 2300, a_responses = [], a_timeTaken = 9, a_completedAt = 2\<rparr>"

definition store5 :: store where
  "store5 = \<lparr>quizzes = [quiz40], attempts = [att23]\<rparr>"

text \<open>A store with both quizzes and both attempts, the owner of the quizzes, and the two
  settings of the database layer under which no call fails.\<close>

definition store3 :: store where
  "store3 = \<lparr>quizzes = [quiz1, quiz0], attempts = [att1, att0]\<rparr>"

definition owner1 :: req_user where
  "owner1 = \<lparr>u_id = ''64a0000000000000000000a1'', u_role = ''user''\<rparr>"

definition db_loose :: db where
  "db_loose = \<lparr>strictQuery = False, attempts_fail = False\<rparr>"

definition db_strict :: db where
  "db_strict = \<lparr>strictQuery = True, attempts_fail = False\<rparr>"

text \<open>A question sent with the \<open>TrueFalse\<close> type tag and the answer \<open>true\<close>.\<close>

definition tf1 :: question where
  "tf1 = \<lparr>q_id = ''64a000000000000000000014'', q_type = ''TrueFalse'',
          questionText = ''Paris is in France'', options = None,
          correctAnswer = JBool True, marks = Some 1\<rparr>"

text \<open>A request body for a new quiz whose only question carries the \<open>TrueFalse\<close> tag,
  and the surroundings of the handler: the user exists.\<close>

definition body_tf :: quiz_body where
  "body_tf = \<lparr>b_title = ''Geography'', b_subject = ''General'', b_duration = 10,
              b_questions = [tf1]\<rparr>"

definition cenv1 :: create_env where
  "cenv1 = \<lparr>user_found = True, new_quiz_id = ''64a000000000000000000003'',
            new_question_id = (\<lambda>i. ''64a000000000000000000014'')\<rparr>"

text \<open>A store in which the empty quiz has been deleted and its attempt is left: the user
  of both attempts has one attempt at an existing quiz and one at a deleted quiz.\<close>

definition store4 :: store where
  "store4 = \<lparr>quizzes = [quiz1], attempts = [att1, att0]\<rparr>"

definition empty_summary :: analytics where
  "empty_summary = \<lparr>totalAttempts = 0, averageScore = num 0,
                     subjectPerformance = Map.empty, recent = []\<rparr>"

section \<open>Properties of grading\<close>

subsection \<open>Unmatched responses\<close>

lemma gradeOne_unmatched: "\<not> matched qs r \<Longrightarrow> gradeOne qs r sc = (None, sc)"
  by (simp add: matched_def gradeOne_def)

lemma gradeOne_matched:
  "matched qs r \<Longrightarrow> \<exists>g sc'. gradeOne qs r sc = (Some g, sc') \<and> g_questionId g = questionId r"
  by (auto simp: matched_def gradeOne_def Let_def)

lemma mapResponses_filter:
  "filterBoolean (fst (mapResponses qs (filter (matched qs) rs) sc))
     = filterBoolean (fst (mapResponses qs rs sc))
   \<and> snd (mapResponses qs (filter (matched qs) rs) sc) = snd (mapResponses qs rs sc)"
proof (induction rs arbitrary: sc)
  case Nil
  show ?case by simp
next
  case (Cons r rs)
  show ?case
  proof (cases "matched qs r")
    case True
    then obtain g sc' where g: "gradeOne qs r sc = (Some g, sc')"
      using gradeOne_matched by blast
    with True Cons.IH [of sc'] show ?thesis
      by (simp add: filterBoolean_def case_prod_beta)
  next
    case False
    with Cons.IH [of sc] show ?thesis
      by (simp add: gradeOne_unmatched filterBoolean_def case_prod_beta)
  qed
qed

lemma processResponses_filter:
  "processResponses qs (filter (matched qs) rs) = processResponses qs rs"
  using mapResponses_filter [of qs rs 0]
  by (simp add: processResponses_def case_prod_beta)

lemma mapResponses_ids:
  "map g_questionId (filterBoolean (fst (mapResponses qs rs sc)))
     = map questionId (filter (matched qs) rs)"
proof (induction rs arbitrary: sc)
  case Nil
  show ?case by (simp add: filterBoolean_def)
next
  case (Cons r rs)
  show ?case
  proof (cases "matched qs r")
    case True
    then obtain g sc' where g: "gradeOne qs r sc = (Some g, sc')" "g_questionId g = questionId r"
      using gradeOne_matched by blast
    with True Cons.IH [of sc'] show ?thesis
      by (simp add: filterBoolean_def case_prod_beta)
  next
    case False
    with Cons.IH [of sc] show ?thesis
      by (simp add: gradeOne_unmatched filterBoolean_def case_prod_beta)
  qed
qed

lemma processResponses_ids:
  "map g_questionId (fst (processResponses qs rs)) = map questionId (filter (matched qs) rs)"
  using mapResponses_ids [of qs rs 0]
  by (simp add: processResponses_def case_prod_beta)

text \<open>
  C4. Responses whose \<open>questionId\<close> matches no question of the quiz are dropped: grading a
  response list gives the same entries and the same score as grading the list with the
  unmatched responses removed; the ids of the output entries are exactly the ids of the
  matched responses, in order; and the whole submission (answer and store) is the one
  that the list without the unmatched responses gives.
\<close>

theorem unmatched_responses_dropped:
  "processResponses qs rs = processResponses qs (filter (matched qs) rs)
   \<and> map g_questionId (fst (processResponses qs rs)) = map questionId (filter (matched qs) rs)
   \<and> (findQuiz s (r_quizId req) = Some qz \<longrightarrow>
        submitQuizAttempt e s (req\<lparr>r_responses := Some rs\<rparr>)
        = submitQuizAttempt e s (req\<lparr>r_responses := Some (filter (matched (questions qz)) rs)\<rparr>))"
  by (simp add: processResponses_filter processResponses_ids submitQuizAttempt_def
      buildAttemptData_def)

theorem unmatched_responses_dropped_witness:
  "findQuiz store1 (r_quizId req_stale) = Some quiz1
   \<and> filter (matched (questions quiz1)) [resp_stale, resp_mcq, resp_stale] = [resp_mcq]
   \<and> processResponses (questions quiz1) [resp_stale, resp_mcq, resp_stale]
       = processResponses (questions quiz1) [resp_mcq]
   \<and> map g_questionId (fst (processResponses (questions quiz1) [resp_stale, resp_mcq, resp_stale]))
       = map questionId [resp_mcq]
   \<and> submitQuizAttempt env1 store1 (req_stale\<lparr>r_responses := Some [resp_stale, resp_mcq, resp_stale]\<rparr>)
       = submitQuizAttempt env1 store1 (req_stale\<lparr>r_responses := Some [resp_mcq]\<rparr>)"
proof -
  have q: "findQuiz store1 (r_quizId req_stale) = Some quiz1"
    by code_simp
  have f: "filter (matched (questions quiz1)) [resp_stale, resp_mcq, resp_stale] = [resp_mcq]"
    by code_simp
  note t = unmatched_responses_dropped
         [of "questions quiz1" "[resp_stale, resp_mcq, resp_stale]" store1 req_stale quiz1 env1,
          unfolded f]
  from t q f show ?thesis by blast
qed

subsection \<open>The emitted and the stored percentage\<close>

text \<open>What a successful submission emits and stores: the emitted percentage divides by the
  total marks, the stored one by the number of questions (and stays at its default 0
  for a quiz with no questions).\<close>

lemma submit_Inr:
  assumes "submitQuizAttempt e s req = (Inr d, s')"
  shows "\<exists>qz rs. findQuiz s (r_quizId req) = Some qz \<and> r_responses req = Some rs
          \<and> d = \<lparr>saved = createAttempt (fresh_id e) (buildAttemptData e req qz rs),
                   percentage = round_pct (num (d_score (buildAttemptData e req qz rs)))
                                          (num (d_totalMarks (buildAttemptData e req qz rs)))\<rparr>
          \<and> s' = s\<lparr>attempts := attempts s @ [saved d]\<rparr>"
  using assms
  by (auto simp: submitQuizAttempt_def Let_def split: option.splits if_splits)

lemma buildAttemptData_fields:
  "d_score (buildAttemptData e req qz rs) = snd (processResponses (questions qz) rs)
   \<and> d_totalMarks (buildAttemptData e req qz rs) = totalMarks_of (questions qz)
   \<and> d_totalQuestions (buildAttemptData e req qz rs) = length (questions qz)"
  by (simp add: buildAttemptData_def case_prod_beta)

lemma createAttempt_fields:
  "a_score (createAttempt i d) = d_score d
   \<and> a_totalQuestions (createAttempt i d) = d_totalQuestions d
   \<and> a_percentage (createAttempt i d)
       = (if d_totalQuestions d > 0
          then round_pct (num (d_score d)) (num (int (d_totalQuestions d))) else num 0)"
  by (simp add: createAttempt_def castAttempt_def preSave_def)

lemma submit_percentage:
  assumes "submitQuizAttempt e s req = (Inr d, s')"
  shows "\<exists>qz rs. findQuiz s (r_quizId req) = Some qz \<and> r_responses req = Some rs
          \<and> percentage d = round_pct (num (snd (processResponses (questions qz) rs)))
                                      (num (totalMarks_of (questions qz)))
          \<and> a_score (saved d) = snd (processResponses (questions qz) rs)
          \<and> a_totalQuestions (saved d) = length (questions qz)
          \<and> a_percentage (saved d)
              = (if questions qz = [] then num 0
                 else round_pct (num (a_score (saved d))) (num (int (length (questions qz)))))
          \<and> s' = s\<lparr>attempts := attempts s @ [saved d]\<rparr>"
proof -
  from submit_Inr [OF assms] obtain qz rs where
    h: "findQuiz s (r_quizId req) = Some qz" "r_responses req = Some rs"
       "d = \<lparr>saved = createAttempt (fresh_id e) (buildAttemptData e req qz rs),
                   percentage = round_pct (num (d_score (buildAttemptData e req qz rs)))
                                          (num (d_totalMarks (buildAttemptData e req qz rs)))\<rparr>"
       "s' = s\<lparr>attempts := attempts s @ [saved d]\<rparr>"
    by blast
  from h(3) have "percentage d = round_pct (num (snd (processResponses (questions qz) rs)))
                                      (num (totalMarks_of (questions qz)))"
     and "a_score (saved d) = snd (processResponses (questions qz) rs)"
     and "a_totalQuestions (saved d) = length (questions qz)"
     and "a_percentage (saved d)
              = (if questions qz = [] then num 0
                 else round_pct (num (a_score (saved d))) (num (int (length (questions qz)))))"
    by (simp_all add: buildAttemptData_fields createAttempt_fields)
  with h show ?thesis by blast
qed

text \<open>With a zero divisor the expression is never 0: it is \<open>NaN\<close> or an infinity.\<close>

lemma round_pct_zero_divisor: "round_pct (num a) (num 0) \<noteq> num 0"
  by (simp add: round_pct_def)

text \<open>
  C1. The percentage of the answer is \<open>Math.round((score / totalMarks) * 100)\<close> with no test
  of the divisor. For the quiz with no questions, \<open>totalMarks\<close> is 0, the score is 0, and
  the emitted percentage is \<open>NaN\<close>, not 0.
\<close>

theorem submit_zero_totalMarks_emits_NaN:
  "totalMarks_of (questions quiz0) = 0
   \<and> map_sum id percentage (fst (submitQuizAttempt env1 store1 req_empty)) = Inr NaN"
  by code_simp

text \<open>
  C2. The percentage that is stored is the pre-save hook's, \<open>score / totalQuestions\<close>. In
  the scenario where both questions of the sample quiz are answered correctly the score
  is 3 of 3 marks, the answer carries 100, and the stored attempt carries
  \<open>round(3 / 2 * 100) = 150\<close>.
\<close>

theorem stored_percentage_uses_totalQuestions:
  "(case submitQuizAttempt env1 store1 req_full of
      (Inr d, s') \<Rightarrow>
        a_score (saved d) = 3 \<and> totalMarks_of (questions quiz1) = 3
        \<and> a_totalQuestions (saved d) = 2
        \<and> percentage d = num 100
        \<and> round_pct (num 3) (num 3) = num 100
        \<and> attempts s' = [saved d]
        \<and> a_percentage (saved d) = num 150
    | (Inl err, s') \<Rightarrow> False)"
  by code_simp

subsection \<open>Repeated responses\<close>

text \<open>
  C10. Grading does not deduplicate by \<open>questionId\<close>. Submitting the correct answer to the
  2-mark question of the sample quiz twice gives two output entries, both correct, a
  score of 4 against 3 total marks, and the percentage 133.
\<close>

theorem duplicate_responses_counted_twice:
  "(case submitQuizAttempt env1 store1 req_dup of
      (Inr d, s') \<Rightarrow>
        r_responses req_dup = Some [resp_fill, resp_fill]
        \<and> map s_questionId (a_responses (saved d)) = [questionId resp_fill, questionId resp_fill]
        \<and> map s_isCorrect (a_responses (saved d)) = [True, True]
        \<and> a_score (saved d) = 4
        \<and> totalMarks_of (questions quiz1) = 3
        \<and> percentage d = num 133
    | (Inl err, s') \<Rightarrow> False)"
  by code_simp

subsection \<open>Multiple-choice answers\<close>
















subsection \<open>Fill-in answers\<close>

lemma lower_char_idem: "lower_char (lower_char c) = lower_char c"
  by (auto simp: lower_char_def Let_def)

lemma is_ws_lower_char: "is_ws (lower_char c) = is_ws c"
  by (auto simp: lower_char_def is_ws_def Let_def)

lemma case_variant_toLowerCase: "case_variant u v \<Longrightarrow> toLowerCase u = toLowerCase v"
  unfolding case_variant_def toLowerCase_def
  by (induction u v rule: list_all2_induct) (auto simp: lower_char_idem)

lemma all_ws_toLowerCase: "all_ws (toLowerCase s) = all_ws s"
  by (induction s) (simp_all add: all_ws_def toLowerCase_def is_ws_lower_char)

lemma dropWhile_all_ws: "all_ws pre \<Longrightarrow> dropWhile is_ws (pre @ s) = dropWhile is_ws s"
  by (induction pre) (simp_all add: all_ws_def)

lemma all_ws_rev: "all_ws (rev s) = all_ws s"
  by (simp add: all_ws_def list_all_iff)

lemma js_trim_prepend: "all_ws pre \<Longrightarrow> js_trim (pre @ s) = js_trim s"
  by (simp add: js_trim_def dropWhile_all_ws)

lemma js_trim_append:
  assumes "all_ws post"
  shows "js_trim (s @ post) = js_trim s"
proof (cases "all_ws s")
  case True
  from True assms have d: "dropWhile is_ws (s @ post) = []" "dropWhile is_ws s = []"
    by (auto simp: all_ws_def list_all_iff)
  show ?thesis
    unfolding js_trim_def d by (rule refl)
next
  case False
  then have "dropWhile is_ws (s @ post) = dropWhile is_ws s @ post"
    by (auto simp: all_ws_def list_all_iff)
  then have "js_trim (s @ post) = rev (dropWhile is_ws (rev post @ rev (dropWhile is_ws s)))"
    by (simp add: js_trim_def)
  also have "\<dots> = rev (dropWhile is_ws (rev (dropWhile is_ws s)))"
    using assms by (simp only: dropWhile_all_ws all_ws_rev)
  finally show ?thesis
    by (simp add: js_trim_def)
qed

lemma js_trim_pad:
  assumes "all_ws pre" and "all_ws post"
  shows "js_trim (toLowerCase (pre @ s @ post)) = js_trim (toLowerCase s)"
proof -
  have "toLowerCase (pre @ s @ post) = toLowerCase pre @ toLowerCase s @ toLowerCase post"
    by (simp add: toLowerCase_def)
  with assms show ?thesis
    by (simp add: js_trim_prepend js_trim_append all_ws_toLowerCase)
qed

text \<open>
  C7. For a fill-in question whose stored answer is not empty, a submitted string is
  correct exactly when the two strings, lower-cased and trimmed, are equal. So the
  grade of a submitted string does not change when white space is put before or after
  it, nor when the case of its letters is changed; and a null or missing answer is
  incorrect.
\<close>

theorem fill_answers_normalised:
  assumes "q_type q = ''Fill''"
  shows "(\<not> falsy (correctAnswer q) \<longrightarrow>
            checkAnswer q (JStr u)
            = (js_trim (toLowerCase (js_toString (correctAnswer q))) = js_trim (toLowerCase u)))
       \<and> (all_ws pre \<and> all_ws post \<longrightarrow>
            checkAnswer q (JStr (pre @ u @ post)) = checkAnswer q (JStr u))
       \<and> (case_variant u v \<longrightarrow> checkAnswer q (JStr u) = checkAnswer q (JStr v))
       \<and> \<not> checkAnswer q JNull \<and> \<not> checkAnswer q JUndefined"
  using assms
  by (auto simp: checkAnswer_def js_trim_pad dest: case_variant_toLowerCase)

theorem fill_answers_normalised_witness:
  "q_type fill1 = ''Fill'' \<and> \<not> falsy (correctAnswer fill1)
   \<and> all_ws ''  '' \<and> all_ws [CHR 0x09, CHR 0x0A] \<and> case_variant ''paris'' ''PaRiS''
   \<and> checkAnswer fill1 (JStr ''paris'')
   \<and> checkAnswer fill1 (JStr (''  '' @ ''paris'' @ [CHR 0x09, CHR 0x0A]))
   \<and> checkAnswer fill1 (JStr ''PaRiS'')
   \<and> \<not> checkAnswer fill1 JNull \<and> \<not> checkAnswer fill1 JUndefined"
proof -
  have t: "q_type fill1 = ''Fill''" by code_simp
  have c: "\<not> falsy (correctAnswer fill1)" by code_simp
  have w: "all_ws ''  ''" "all_ws [CHR 0x09, CHR 0x0A]" by code_simp+
  have v: "case_variant ''paris'' ''PaRiS''" by code_simp
  have e: "js_trim (toLowerCase (js_toString (correctAnswer fill1)))
           = js_trim (toLowerCase ''paris'')"
    by code_simp
  note f = fill_answers_normalised
      [OF t, of "''paris''" "''  ''" "[CHR 0x09, CHR 0x0A]" "''PaRiS''"]
  from f t c w v e show ?thesis
    by (metis (no_types, lifting))
qed

section \<open>Properties of the results page\<close>

subsection \<open>Rounding to a double\<close>

text \<open>\<open>pow2\<close> is the power of 2 with an integer exponent, and \<open>ilog2 x\<close> is not above the
  binary exponent of \<open>x\<close>.\<close>

lemma pow2_powi: "pow2 e = 2 powi e"
  by (simp add: pow2_def power_int_def power_one_over)


lemma pow2_mono: "a \<le> b \<Longrightarrow> pow2 a \<le> pow2 b"
  by (simp add: pow2_powi power_int_increasing)












subsection \<open>Running the page twice\<close>









text \<open>The arithmetic is that of doubles: 23 of 40 gives \<open>0.575 * 100 = 57.49999999999999\<close>
  and the percentage 57, where the exact quotient times 100 is 57.5.\<close>

lemma percentage_23_of_40:
  "js_div (num 23) (num 40) = Fin (2589569785738035 / 4503599627370496)
   \<and> Number_toString (js_mul (js_div (num 23) (num 40)) (num 100)) = ''57.49999999999999''
   \<and> calculatedPercentage 23 40 = num 57
   \<and> spec_percentage 23 40 = num 57
   \<and> (23 / 40 * 100 :: rat) = 115 / 2"
  by code_simp




text \<open>The attempt is found by the ObjectId that the id string denotes, whatever the case
  of its hexadecimal digits.\<close>

lemma getQuizAttemptById_id_case:
  "reported (fst (getQuizAttemptById hexId False store5 ''64A0000000000000000000B3''))
     = Inr (num 57, 40)"
  by code_simp



section \<open>Properties of quiz creation and the pre-save hook\<close>

text \<open>The hook leaves the type tag of every question as it is.\<close>

lemma preSaveQuestion_type: "q_type (preSaveQuestion q) = q_type q"
  by (simp add: preSaveQuestion_def)

lemma map_snd_enumerate_fun: "map (\<lambda>p. g (snd p)) (enumerate n xs) = map g xs"
  by (induction xs arbitrary: n) simp_all

lemma newQuiz_types:
  "map q_type (questions (newQuiz e uid body)) = map q_type (b_questions body)"
  by (simp add: newQuiz_def case_prod_beta comp_def map_snd_enumerate_fun)

text \<open>A body with a question tagged \<open>TrueFalse\<close> is never stored: the handler answers with an
  error and leaves the store as it was.\<close>

lemma createQuiz_rejects_TrueFalse:
  assumes "q \<in> set (b_questions body)" "q_type q = ''TrueFalse''"
  shows "\<exists>err. createQuiz e s user body = (Inl err, s)"
proof -
  have "\<not> validQuiz body (newQuiz e uid body)" for uid
  proof -
    from assms have "''TrueFalse'' \<in> set (map q_type (b_questions body))"
      by force
    then have "''TrueFalse'' \<in> set (map q_type (questions (newQuiz e uid body)))"
      by (simp only: newQuiz_types)
    then obtain q' where "q' \<in> set (questions (newQuiz e uid body))" "q_type q' = ''TrueFalse''"
      by auto
    then have "q' \<in> set (questions (newQuiz e uid body))" "\<not> validQuestion q'"
      by (simp_all add: validQuestion_def validType_def)
    then have "\<not> list_all validQuestion (questions (newQuiz e uid body))"
      unfolding list_all_iff by blast
    then show ?thesis
      by (simp add: validQuiz_def)
  qed
  then show ?thesis
    by (simp add: createQuiz_def Let_def split: option.splits)
qed

text \<open>Every question of a quiz that the handler stores is tagged \<open>MCQ\<close> or \<open>Fill\<close>: the
  \<open>TrueFalse\<close> branch of the hook is not reached from it.\<close>

lemma createQuiz_stored_types:
  assumes "createQuiz e s user body = (Inr qz, s')" "q \<in> set (questions qz)"
  shows "q_type q = ''MCQ'' \<or> q_type q = ''Fill''"
proof -
  from assms(1) obtain u where u: "user = Some u"
    by (cases user) (simp_all add: createQuiz_def)
  with assms(1) have v: "validQuiz body (newQuiz e (u_id u) body)"
      and qz: "qz = preSaveQuiz (newQuiz e (u_id u) body)"
    by (simp_all add: createQuiz_def Let_def split: if_splits)
  from assms(2) qz obtain q0 where q0: "q0 \<in> set (questions (newQuiz e (u_id u) body))"
      and q: "q = preSaveQuestion q0"
    by (auto simp: preSaveQuiz_def)
  from v q0 have "validType q0"
    by (auto simp: validQuiz_def list_all_iff validQuestion_def)
  with q show ?thesis
    by (simp add: validType_def preSaveQuestion_type)
qed

text \<open>
  C8. A question sent with the type tag \<open>TrueFalse\<close> and the answer \<open>true\<close> is not rewritten
  to a multiple-choice question: creating a quiz with it is answered with 400 and
  nothing is stored, because the \<open>enum\<close> of \<open>type\<close> admits \<open>MCQ\<close> and \<open>Fill\<close> only and the
  document is validated before the pre-save hook runs (the same body with a
  multiple-choice question in its place is stored). The hook itself, applied to the
  question, sets the two options and the index 0 but leaves the tag \<open>TrueFalse\<close>; the
  result has two options where a multiple-choice question must have four, and grading
  the answer 0 against it takes the branch of an unknown type and marks it incorrect.
\<close>

theorem trueFalse_rejected_before_hook:
  "b_questions body_tf = [tf1] \<and> q_type tf1 = ''TrueFalse'' \<and> correctAnswer tf1 = JBool True
   \<and> createQuiz cenv1 store1 (Some owner1) body_tf = (Inl BadRequest, store1)
   \<and> \<not> validType tf1
   \<and> (case createQuiz cenv1 store1 (Some owner1) (body_tf\<lparr>b_questions := [mcq1]\<rparr>) of
         (Inr qz, s') \<Rightarrow> quizzes s' = quizzes store1 @ [qz] \<and> map q_type (questions qz) = [''MCQ'']
       | (Inl err, s') \<Rightarrow> False)
   \<and> q_type (preSaveQuestion tf1) = ''TrueFalse''
   \<and> options (preSaveQuestion tf1) = Some [''True'', ''False'']
   \<and> correctAnswer (preSaveQuestion tf1) = JNum (num 0)
   \<and> \<not> validOptions ((preSaveQuestion tf1)\<lparr>q_type := ''MCQ''\<rparr>)
   \<and> \<not> checkAnswer (preSaveQuestion tf1) (JNum (num 0))
   \<and> checkAnswer ((preSaveQuestion tf1)\<lparr>q_type := ''MCQ''\<rparr>) (JNum (num 0))"
  by code_simp

section \<open>Properties of quiz deletion\<close>

lemma find_Some_P: "find P xs = Some x \<Longrightarrow> P x"
  by (induction xs) (auto split: if_splits)

lemma deleteMany_quiz: "deleteMany sq (''quiz'', qid) as = filter (\<lambda>a. a_quiz a \<noteq> qid) as"
  by (simp add: deleteMany_def matchesFilter_def attemptPath_def)

lemma deleteMany_quizId: "deleteMany sq (''quizId'', qid) as = (if sq then [] else as)"
  by (simp add: deleteMany_def matchesFilter_def attemptPath_def)

lemma findQuiz_removeQuiz: "findQuiz (removeQuiz (castObjectId qid) s) qid = None"
  by (simp add: findQuiz_def removeQuiz_def find_None_iff)

lemma attempts_removeQuiz: "attempts (removeQuiz qid s) = attempts s"
  by (simp add: removeQuiz_def)

text \<open>The administrator's route: after a successful deletion the quiz is gone and the
  attempts left are exactly those of other quizzes.\<close>

lemma admin_deleteQuiz_cascades:
  assumes "admin_deleteQuiz d s qid = (Inr u, s')"
  shows "findQuiz s' qid = None
     \<and> attempts s' = filter (\<lambda>a. a_quiz a \<noteq> castObjectId qid) (attempts s)"
proof -
  from assms obtain qz where q: "findQuiz s qid = Some qz" and nf: "\<not> attempts_fail d"
      and c: "castable qid"
    by (auto simp: admin_deleteQuiz_def split: option.splits if_splits)
  then have i: "quiz_id qz = castObjectId qid"
    by (auto simp: findQuiz_def dest: find_Some_P)
  from assms q nf c
  have "s' = removeQuiz (castObjectId qid)
               (s\<lparr>attempts := filter (\<lambda>a. a_quiz a \<noteq> castObjectId qid) (attempts s)\<rparr>)"
    by (simp add: admin_deleteQuiz_def deleteMany_quiz i Let_def)
  then show ?thesis
    by (simp add: findQuiz_removeQuiz attempts_removeQuiz)
qed

text \<open>The owner's route: after a successful deletion the quiz is gone and the attempts are
  all kept or all removed, whatever quiz they belong to.\<close>

lemma deleteQuiz_attempts:
  assumes "deleteQuiz d s user qid = (Inr u, s')"
  shows "findQuiz s' qid = None \<and> attempts s' = (if strictQuery d then [] else attempts s)"
proof -
  from assms obtain qz where q: "findQuiz s qid = Some qz" and nf: "\<not> attempts_fail d"
    and au: "\<not> (createdBy qz \<noteq> u_id user \<and> u_role user \<noteq> ''admin'')"
    and c: "castable qid"
    by (auto simp: deleteQuiz_def split: option.splits if_splits)
  then have i: "quiz_id qz = castObjectId qid"
    by (auto simp: findQuiz_def dest: find_Some_P)
  from assms q nf au c
  have "s' = removeQuiz (castObjectId qid) (s\<lparr>attempts := (if strictQuery d then [] else attempts s)\<rparr>)"
    by (simp add: deleteQuiz_def deleteMany_quizId i Let_def)
  then show ?thesis
    by (simp add: findQuiz_removeQuiz attempts_removeQuiz)
qed

text \<open>Both routes leave the store as it was when removing the attempts fails.\<close>

lemma delete_fail_closed:
  assumes "attempts_fail d"
  shows "snd (deleteQuiz d s user qid) = s \<and> snd (admin_deleteQuiz d s qid) = s"
  using assms
  by (simp add: deleteQuiz_def admin_deleteQuiz_def split: option.splits)

text \<open>
  C3. The owner's delete route filters the attempts by \<open>quizId\<close>, a path the attempt schema
  does not have. In a store with an attempt at each of two quizzes, deleting the first
  quiz through that route succeeds and removes the quiz, and then: with \<open>strictQuery\<close>
  off, both attempts remain, the one that refers to the deleted quiz included; with
  \<open>strictQuery\<close> on, both attempts are gone, the one at the other quiz included. The
  administrator's route, which filters by \<open>quiz\<close>, removes exactly the attempt at the
  deleted quiz under either setting.
\<close>

theorem owner_delete_misses_attempts:
  "(case deleteQuiz db_loose store3 owner1 (quiz_id quiz1) of
      (Inr u, s') \<Rightarrow> findQuiz s' (quiz_id quiz1) = None \<and> attempts s' = [att1, att0]
                     \<and> a_quiz att1 = quiz_id quiz1
    | (Inl err, s') \<Rightarrow> False)
   \<and> (case deleteQuiz db_strict store3 owner1 (quiz_id quiz1) of
      (Inr u, s') \<Rightarrow> findQuiz s' (quiz_id quiz1) = None \<and> attempts s' = []
                     \<and> a_quiz att0 = quiz_id quiz0 \<and> findQuiz s' (quiz_id quiz0) = Some quiz0
    | (Inl err, s') \<Rightarrow> False)
   \<and> (case admin_deleteQuiz db_loose store3 (quiz_id quiz1) of
      (Inr u, s') \<Rightarrow> findQuiz s' (quiz_id quiz1) = None \<and> attempts s' = [att0]
    | (Inl err, s') \<Rightarrow> False)
   \<and> (case admin_deleteQuiz db_strict store3 (quiz_id quiz1) of
      (Inr u, s') \<Rightarrow> findQuiz s' (quiz_id quiz1) = None \<and> attempts s' = [att0]
    | (Inl err, s') \<Rightarrow> False)"
  by code_simp

section \<open>Properties of the analytics\<close>

text \<open>The query names \<open>userId\<close>, a path the attempt schema does not have. With
  \<open>strictQuery\<close> off it finds nothing; with \<open>strictQuery\<close> on it finds every attempt of
  every user, none with a \<open>quizId\<close>.\<close>

lemma analyticsQuery_loose: "\<not> strictQuery d \<Longrightarrow> analyticsQuery d s uid = []"
  by (simp add: analyticsQuery_def matchesFilter_def attemptPath_def)

lemma analyticsQuery_strict:
  "strictQuery d \<Longrightarrow>
   analyticsQuery d s uid
   = map (\<lambda>a. \<lparr>f_quizId = None, f_score = a_score a, f_totalMarks = a_totalMarks a,
                f_completedAt = a_completedAt a\<rparr>) (attempts s)"
  by (simp add: analyticsQuery_def matchesFilter_def attemptPath_def)

lemma summarise_Nil: "summarise [] = Inr empty_summary"
  by (simp add: summarise_def empty_summary_def)

text \<open>The loop over the attempts reads \<open>attempt.quizId.subject\<close> with no test of \<open>quizId\<close>:
  one attempt without it fails the whole summary.\<close>

lemma groupSubjects_unresolved:
  "a \<in> set as \<Longrightarrow> f_quizId a = None \<Longrightarrow> groupSubjects as acc = None"
proof (induction as arbitrary: acc)
  case Nil
  then show ?case by simp
next
  case (Cons x xs)
  then show ?case
    by (cases "f_quizId x") (auto simp: Let_def)
qed

lemma summarise_unresolved:
  "a \<in> set as \<Longrightarrow> f_quizId a = None \<Longrightarrow> summarise as = Inl ServerError"
  by (simp add: summarise_def Let_def groupSubjects_unresolved)

lemma getUserAnalytics_loose:
  "\<not> strictQuery d \<Longrightarrow> getUserAnalytics d s uid = Inr empty_summary"
  by (simp add: getUserAnalytics_def analyticsQuery_loose summarise_Nil)

lemma getUserAnalytics_strict:
  assumes "strictQuery d" "attempts s \<noteq> []"
  shows "getUserAnalytics d s uid = Inl ServerError"
proof -
  from assms(2) obtain a as where "attempts s = a # as"
    by (cases "attempts s") auto
  with assms(1) show ?thesis
    by (simp add: getUserAnalytics_def analyticsQuery_strict
        summarise_unresolved [where a = "\<lparr>f_quizId = None, f_score = a_score a,
          f_totalMarks = a_totalMarks a, f_completedAt = a_completedAt a\<rparr>"])
qed

text \<open>
  C9. The user of the sample attempts has one attempt at a quiz that exists and one at
  a quiz that was deleted. The query of the handler filters by \<open>userId\<close> and populates
  \<open>quizId\<close>, paths that the attempt schema (\<open>user\<close>, \<open>quiz\<close>) does not have. With
  \<open>strictQuery\<close> on, the filter is dropped, the attempts come back without a \<open>quizId\<close>,
  the subject loop throws on the first of them and the handler answers 500: the
  aggregation fails as a whole, and it does so as well when every quiz exists. With
  \<open>strictQuery\<close> off, the query finds no attempt and the handler answers with the empty
  summary: 0 attempts and no subject, the attempt at the existing quiz left out with
  the other.
\<close>

theorem analytics_fails_or_is_empty:
  "a_user att1 = ''64a0000000000000000000a2'' \<and> a_user att0 = ''64a0000000000000000000a2''
   \<and> attempts store4 = [att1, att0]
   \<and> populateQuiz store4 att1 = Some quiz1 \<and> populateQuiz store4 att0 = None
   \<and> getUserAnalytics db_strict store4 ''64a0000000000000000000a2'' = Inl ServerError
   \<and> getUserAnalytics db_strict store3 ''64a0000000000000000000a2'' = Inl ServerError
   \<and> getUserAnalytics db_loose store4 ''64a0000000000000000000a2'' = Inr empty_summary
   \<and> totalAttempts empty_summary = 0 \<and> subjectPerformance empty_summary = Map.empty"
proof -
  have a: "a_user att1 = ''64a0000000000000000000a2'' \<and> a_user att0 = ''64a0000000000000000000a2''
     \<and> attempts store4 = [att1, att0]
     \<and> populateQuiz store4 att1 = Some quiz1 \<and> populateQuiz store4 att0 = None"
    by code_simp
  have s4: "getUserAnalytics db_strict store4 ''64a0000000000000000000a2'' = Inl ServerError"
    by (rule getUserAnalytics_strict) (simp_all add: db_strict_def store4_def)
  have s3: "getUserAnalytics db_strict store3 ''64a0000000000000000000a2'' = Inl ServerError"
    by (rule getUserAnalytics_strict) (simp_all add: db_strict_def store3_def)
  have l: "getUserAnalytics db_loose store4 ''64a0000000000000000000a2'' = Inr empty_summary"
    by (rule getUserAnalytics_loose) (simp add: db_loose_def)
  have e: "totalAttempts empty_summary = 0 \<and> subjectPerformance empty_summary = Map.empty"
    by (simp add: empty_summary_def)
  from a s4 s3 l e show ?thesis by blast
qed

end
